theory Spec2Isabelle
  imports Complex_Main
begin

section \<open>Data model\<close>

text \<open>
  The game state of \<^verbatim>\<open>state.js\<close>, one record per typedef. A JavaScript number is
  modelled as a \<^typ>\<open>real\<close>: arithmetic is exact, and \<^verbatim>\<open>Math.sin\<close>, \<^verbatim>\<open>Math.cos\<close>,
  \<^verbatim>\<open>Math.asin\<close> and \<^verbatim>\<open>Math.PI\<close> are \<^const>\<open>sin\<close>, \<^const>\<open>cos\<close>, \<^const>\<open>arcsin\<close> and
  \<^const>\<open>pi\<close>. Objects are values: \<^verbatim>\<open>structuredClone\<close> gives every frame its own
  copy, so the old state is never changed by an update of the new one.

  Several typedefs have a field \<^verbatim>\<open>pos\<close>; a record field is a constant of the theory,
  so the field is prefixed with its owner (\<open>ball_pos\<close>, \<open>paddle_pos\<close>, ...), and the
  coordinates \<^verbatim>\<open>x\<close>, \<^verbatim>\<open>y\<close> are \<open>pos_x\<close>, \<open>pos_y\<close>.
\<close>

record Pos =
  pos_x :: real
  pos_y :: real

record Boundaries =
  xMin :: real
  xMax :: real
  yMin :: real
  yMax :: real

record Ball =
  ball_pos :: Pos
  speed :: real
  angle :: real

record Paddle =
  paddle_pos :: Pos
  width :: real
  desiredWidth :: real

datatype PowerupType = Expander

record Powerup =
  ptype :: PowerupType
  active :: bool
  powerup_pos :: "Pos option"
  timer :: real

record Brick =
  brick_pos :: Pos
  powerup :: "Powerup option"

record State =
  isPaused :: bool
  isServing :: bool
  boundaries :: Boundaries
  ball :: Ball
  paddle :: Paddle
  bricks :: "Brick list"
  score :: "nat \<times> nat"
  powerups :: "Powerup list"

text \<open>The part of the canvas element that \<^verbatim>\<open>createState\<close> reads.\<close>

record Canvas =
  canvas_width :: real
  canvas_height :: real

text \<open>The set of keys that are held: \<^verbatim>\<open>Set<string>\<close>.\<close>

type_synonym Inputs = "string set"

subsection \<open>Constants of \<^verbatim>\<open>globals.js\<close>\<close>

definition BALL_RADIUS :: real where "BALL_RADIUS = 15 / 2"
definition BALL_SPEED :: real where "BALL_SPEED = 5"
definition PADDLE_WIDTH :: real where "PADDLE_WIDTH = 80"
definition PADDLE_HEIGHT :: real where "PADDLE_HEIGHT = 15"
definition PADDLE_SPEED :: real where "PADDLE_SPEED = 2"
definition PADDLE_OFFSET_Y :: real where "PADDLE_OFFSET_Y = 20"
definition BRICK_WIDTH :: real where "BRICK_WIDTH = 50"
definition BRICK_HEIGHT :: real where "BRICK_HEIGHT = 25"
definition BRICK_COLS :: nat where "BRICK_COLS = 8"
definition BRICK_ROWS :: nat where "BRICK_ROWS = 4"
definition POWERUP_DROP_SPEED :: real where "POWERUP_DROP_SPEED = 2"

section \<open>The initial state\<close>

text \<open>
  \<^verbatim>\<open>randomPowerup\<close> draws \<^verbatim>\<open>Math.random()\<close>; the draw is the argument \<open>p\<close>.
\<close>

definition randomPowerup :: "real \<Rightarrow> Powerup option" where
  "randomPowerup p =
     (if p > 0.1875 then None
      else Some \<lparr>ptype = Expander, active = False, powerup_pos = None, timer = 30 * 60\<rparr>)"

text \<open>
  \<^verbatim>\<open>createState\<close>: the two nested loops push the bricks row by row; \<open>rnd k\<close> is the
  \<open>k\<close>-th draw of \<^verbatim>\<open>Math.random()\<close>, one draw per brick in the order of the pushes.
\<close>

definition createBricks :: "(nat \<Rightarrow> real) \<Rightarrow> Brick list" where
  "createBricks rnd =
     concat (map (\<lambda>row.
       map (\<lambda>col.
         \<lparr>brick_pos = \<lparr>pos_x = 40 + real col * (BRICK_WIDTH + 10),
                       pos_y = 40 + real row * (BRICK_HEIGHT + 10)\<rparr>,
          powerup = randomPowerup (rnd (row * BRICK_COLS + col))\<rparr>)
         [0..<BRICK_COLS])
       [0..<BRICK_ROWS])"

definition createState :: "Canvas \<Rightarrow> (nat \<Rightarrow> real) \<Rightarrow> State" where
  "createState canvas rnd =
     \<lparr>isPaused = False,
      isServing = True,
      boundaries = \<lparr>xMin = 0, xMax = canvas_width canvas, yMin = 0, yMax = canvas_height canvas\<rparr>,
      ball = \<lparr>ball_pos = \<lparr>pos_x = canvas_width canvas / 2,
                           pos_y = PADDLE_OFFSET_Y + PADDLE_HEIGHT / 2\<rparr>,
              speed = 3,
              angle = pi / 3\<rparr>,
      paddle = \<lparr>paddle_pos = \<lparr>pos_x = canvas_width canvas / 2,
                               pos_y = canvas_height canvas - PADDLE_OFFSET_Y\<rparr>,
                width = PADDLE_WIDTH,
                desiredWidth = PADDLE_WIDTH\<rparr>,
      bricks = createBricks rnd,
      score = (0, 0),
      powerups = []\<rparr>"

section \<open>The state transition\<close>

text \<open>
  Every step of \<^verbatim>\<open>updateState\<close> mutates the clone; here it returns the updated
  record. \<^verbatim>\<open>updatePause\<close> also mutates the input set, which it returns.
\<close>

definition updatePause :: "State \<Rightarrow> Inputs \<Rightarrow> State \<times> Inputs" where
  "updatePause state inputs =
     (if ''p'' \<in> inputs
      then (state\<lparr>isPaused := \<not> isPaused state\<rparr>, inputs - {''p''})
      else (state, inputs))"

definition updateServingPaddle :: "State \<Rightarrow> State \<Rightarrow> Inputs \<Rightarrow> State" where
  "updateServingPaddle state oldState inputs =
     (if isServing oldState \<and> '' '' \<in> inputs
      then state\<lparr>isServing := False\<rparr>
      else state)"

text \<open>\<^verbatim>\<open>xs.splice(i, 1)\<close>: the list without the element at index \<open>i\<close>.\<close>

definition splice1 :: "nat \<Rightarrow> 'a list \<Rightarrow> 'a list" where
  "splice1 i xs = take i xs @ drop (Suc i) xs"

text \<open>
  The loop of \<^verbatim>\<open>updatePowerups\<close>. A \<^verbatim>\<open>for ... of\<close> over an array reads the element at
  a running index and compares the index with the current length before each round, so
  the loop is a recursion on the index \<open>i\<close> over the list as it is at that moment.
  The objects of the list are distinct, so \<^verbatim>\<open>indexOf(powerup)\<close> is the running
  index. \<open>dw\<close> is \<^verbatim>\<open>state.paddle.desiredWidth\<close>.
\<close>

function updatePowerupsLoop :: "nat \<Rightarrow> Powerup list \<Rightarrow> real \<Rightarrow> Powerup list \<times> real" where
  "updatePowerupsLoop i ps dw =
     (if i < length ps then
        (case powerup_pos (ps ! i) of
           Some q \<Rightarrow>
             updatePowerupsLoop (Suc i)
               (ps[i := (ps ! i)\<lparr>powerup_pos := Some (q\<lparr>pos_y := pos_y q + POWERUP_DROP_SPEED\<rparr>)\<rparr>])
               dw
         | None \<Rightarrow>
             (if timer (ps ! i) - 1 \<le> 0
              then updatePowerupsLoop (Suc i) (splice1 i ps)
                     (if ptype (ps ! i) = Expander then dw - 10 else dw)
              else updatePowerupsLoop (Suc i)
                     (ps[i := (ps ! i)\<lparr>timer := timer (ps ! i) - 1\<rparr>]) dw))
      else (ps, dw))"
  by pat_completeness auto
termination
  by (relation "measure (\<lambda>(i, ps, dw). length ps - i)") (auto simp: splice1_def)

definition updatePowerups :: "State \<Rightarrow> State" where
  "updatePowerups state =
     (let (ps, dw) = updatePowerupsLoop 0 (powerups state) (desiredWidth (paddle state))
      in state\<lparr>powerups := ps, paddle := (paddle state)\<lparr>desiredWidth := dw\<rparr>\<rparr>)"



text \<open>
  \<^verbatim>\<open>updatePaddle\<close>: the bounds and the moves read the paddle of the old state; the
  width animation reads the new one.
\<close>

definition updatePaddle :: "State \<Rightarrow> State \<Rightarrow> Inputs \<Rightarrow> State" where
  "updatePaddle state oldState inputs =
     (let opaddle = paddle oldState;
          lo = xMin (boundaries oldState) + width opaddle / 2;
          hi = xMax (boundaries oldState) - width opaddle / 2;
          x0 = pos_x (paddle_pos (paddle state));
          x1 = (if ''ArrowLeft'' \<in> inputs
                then max lo (pos_x (paddle_pos opaddle) - PADDLE_SPEED) else x0);
          x2 = (if ''ArrowRight'' \<in> inputs
                then min hi (pos_x (paddle_pos opaddle) + PADDLE_SPEED) else x1);
          w = width (paddle state);
          d = desiredWidth (paddle state);
          w' = (if w < d then min d (w + 1) else if w > d then max d (w - 1) else w)
      in state\<lparr>paddle := (paddle state)
                 \<lparr>paddle_pos := (paddle_pos (paddle state))\<lparr>pos_x := x2\<rparr>, width := w'\<rparr>\<rparr>)"

definition updateBall :: "State \<Rightarrow> State \<Rightarrow> State" where
  "updateBall state oldState =
     (if isServing state then
        (let offset = PADDLE_HEIGHT / 2 + BALL_RADIUS + 1;
             y = pos_y (paddle_pos (paddle state)) - offset
         in state\<lparr>ball := (ball state)
                     \<lparr>ball_pos := (ball_pos (ball state))
                                   \<lparr>pos_x := pos_x (paddle_pos (paddle state)), pos_y := y\<rparr>,
                      angle := 0, speed := 0\<rparr>\<rparr>)
      else
        (let oldBall = ball oldState;
             served = (speed oldBall = 0);
             speed' = (if served then BALL_SPEED else speed oldBall);
             angle' = (if served then - pi / 2 else angle oldBall);
             ball1 = (if served then (ball state)\<lparr>angle := angle', speed := speed'\<rparr>
                      else ball state)
         in state\<lparr>ball := ball1\<lparr>ball_pos := (ball_pos ball1)
                     \<lparr>pos_x := pos_x (ball_pos oldBall) + speed' * cos angle',
                      pos_y := pos_y (ball_pos oldBall) + speed' * sin angle'\<rparr>\<rparr>\<rparr>))"

definition updateState :: "State \<Rightarrow> Inputs \<Rightarrow> State \<times> Inputs" where
  "updateState oldState inputs =
     (let (state, inputs') = updatePause oldState inputs
      in if \<not> isPaused state
         then (updateBall
                 (updatePaddle
                    (updatePowerups (updateServingPaddle state oldState inputs'))
                    oldState inputs')
                 oldState, inputs')
         else (state, inputs'))"

section \<open>Collision detection\<close>

text \<open>
  The wall of a wall event and the side of a brick event are the same four strings.
  A powerup event holds a reference to a powerup object of \<^verbatim>\<open>state.powerups\<close>; here
  it is the index of that object in the list (the handlers only append to the list, so
  the index names the same object during the whole frame).

  The events are collected in a \<^verbatim>\<open>Set\<close> of fresh objects: no two are identical, and
  a \<^verbatim>\<open>Set\<close> is iterated in insertion order. The set is the list of events in the
  order of the \<^verbatim>\<open>add\<close> calls.
\<close>

datatype Side = Top | Left | Right | Bottom

datatype Collision =
    BallPaddle
  | BallWall Side
  | BallBrick nat Side
  | PowerupPaddle nat

type_synonym Collisions = "Collision list"

definition detectBallWallCollision :: "State \<Rightarrow> Collisions" where
  "detectBallWallCollision state =
     (if pos_x (ball_pos (ball state)) - BALL_RADIUS < xMin (boundaries state)
      then [BallWall Left] else [])
     @ (if pos_x (ball_pos (ball state)) + BALL_RADIUS > xMax (boundaries state)
        then [BallWall Right] else [])
     @ (if pos_y (ball_pos (ball state)) + BALL_RADIUS < yMin (boundaries state)
        then [BallWall Top] else [])
     @ (if pos_y (ball_pos (ball state)) - BALL_RADIUS > yMax (boundaries state)
        then [BallWall Bottom] else [])"

text \<open>
  The body of the loop of \<^verbatim>\<open>detectBallBrickCollision\<close> for one brick: the overlap
  test on the new ball and the side read from the old ball.
\<close>

definition ballOverlapsBrick :: "Ball \<Rightarrow> Brick \<Rightarrow> bool" where
  "ballOverlapsBrick b brick =
     (let ballTop = pos_y (ball_pos b) - BALL_RADIUS;
          ballBottom = pos_y (ball_pos b) + BALL_RADIUS;
          ballLeft = pos_x (ball_pos b) - BALL_RADIUS;
          ballRight = pos_x (ball_pos b) + BALL_RADIUS;
          brickTop = pos_y (brick_pos brick) - BRICK_HEIGHT / 2;
          brickBottom = pos_y (brick_pos brick) + BRICK_HEIGHT / 2;
          brickLeft = pos_x (brick_pos brick) - BRICK_WIDTH / 2;
          brickRight = pos_x (brick_pos brick) + BRICK_WIDTH / 2
      in ballRight > brickLeft \<and> ballLeft < brickRight
         \<and> ballBottom > brickTop \<and> ballTop < brickBottom)"

definition brickSide :: "Ball \<Rightarrow> Brick \<Rightarrow> Side" where
  "brickSide oldBall brick =
     (let brickTop = pos_y (brick_pos brick) - BRICK_HEIGHT / 2;
          brickBottom = pos_y (brick_pos brick) + BRICK_HEIGHT / 2;
          brickRight = pos_x (brick_pos brick) + BRICK_WIDTH / 2
      in if pos_y (ball_pos oldBall) - BALL_RADIUS \<ge> brickBottom then Bottom
         else if pos_y (ball_pos oldBall) + BALL_RADIUS \<le> brickTop then Top
         else if pos_x (ball_pos oldBall) - BALL_RADIUS \<ge> brickRight then Right
         else Left)"

fun detectBallBrickLoop :: "Ball \<Rightarrow> Ball \<Rightarrow> nat \<Rightarrow> Brick list \<Rightarrow> Collisions" where
  "detectBallBrickLoop b oldBall index [] = []"
| "detectBallBrickLoop b oldBall index (brick # rest) =
     (if ballOverlapsBrick b brick then [BallBrick index (brickSide oldBall brick)] else [])
     @ detectBallBrickLoop b oldBall (index + 1) rest"

definition detectBallBrickCollision :: "State \<Rightarrow> State \<Rightarrow> Collisions" where
  "detectBallBrickCollision state oldState =
     detectBallBrickLoop (ball state) (ball oldState) 0 (bricks state)"

definition detectBallPaddleCollision :: "State \<Rightarrow> Collisions" where
  "detectBallPaddleCollision state =
     (if pos_x (ball_pos (ball state)) > pos_x (paddle_pos (paddle state)) - width (paddle state) / 2
         \<and> pos_x (ball_pos (ball state)) < pos_x (paddle_pos (paddle state)) + width (paddle state) / 2
         \<and> pos_y (ball_pos (ball state)) > pos_y (paddle_pos (paddle state)) - PADDLE_HEIGHT / 2
         \<and> pos_y (ball_pos (ball state)) < pos_y (paddle_pos (paddle state)) + PADDLE_HEIGHT / 2
      then [BallPaddle] else [])"

fun detectPowerupPaddleLoop :: "Paddle \<Rightarrow> nat \<Rightarrow> Powerup list \<Rightarrow> Collisions" where
  "detectPowerupPaddleLoop pad index [] = []"
| "detectPowerupPaddleLoop pad index (p # rest) =
     (case powerup_pos p of
        None \<Rightarrow> []
      | Some q \<Rightarrow>
          (if pos_x q > pos_x (paddle_pos pad) - width pad / 2
              \<and> pos_x q < pos_x (paddle_pos pad) + width pad / 2
              \<and> pos_y q > pos_y (paddle_pos pad) - PADDLE_HEIGHT / 2
              \<and> pos_y q < pos_y (paddle_pos pad) + PADDLE_HEIGHT / 2
           then [PowerupPaddle index] else []))
     @ detectPowerupPaddleLoop pad (index + 1) rest"

definition detectPowerupPaddleCollision :: "State \<Rightarrow> Collisions" where
  "detectPowerupPaddleCollision state =
     detectPowerupPaddleLoop (paddle state) 0 (powerups state)"

definition detectCollisions :: "State \<Rightarrow> State \<Rightarrow> Collisions" where
  "detectCollisions state oldState =
     detectBallWallCollision state
     @ detectBallBrickCollision state oldState
     @ detectBallPaddleCollision state
     @ detectPowerupPaddleCollision state"

section \<open>Collision resolution\<close>

text \<open>
  The handlers mutate the new state and read the old one. The only operation that can
  throw is the destructuring of the spliced brick in \<^verbatim>\<open>handleBallBrickCollision\<close>:
  \<^verbatim>\<open>splice\<close> at an index past the end removes nothing and returns the empty array, its
  first element is \<^verbatim>\<open>undefined\<close>, and reading \<^verbatim>\<open>powerup\<close> from it is a
  \<^verbatim>\<open>TypeError\<close>, which ends the frame loop.
\<close>

datatype error = TypeError

definition reflectHorizontal :: "State \<Rightarrow> Ball \<Rightarrow> State" where
  "reflectHorizontal state oldBall =
     (let angle' = pi - angle oldBall
      in state\<lparr>ball := (ball state)
           \<lparr>angle := angle',
            ball_pos := (ball_pos (ball state))
              \<lparr>pos_x := pos_x (ball_pos oldBall) + speed oldBall * cos angle'\<rparr>\<rparr>\<rparr>)"

definition reflectVertical :: "State \<Rightarrow> Ball \<Rightarrow> State" where
  "reflectVertical state oldBall =
     (let angle' = - angle (ball state)
      in state\<lparr>ball := (ball state)
           \<lparr>angle := angle',
            ball_pos := (ball_pos (ball state))
              \<lparr>pos_y := pos_y (ball_pos oldBall) + speed oldBall * sin angle'\<rparr>\<rparr>\<rparr>)"

definition handleBallWallCollision :: "Side \<Rightarrow> State \<Rightarrow> State \<Rightarrow> State" where
  "handleBallWallCollision wall state oldState =
     (if wall = Bottom then state\<lparr>isServing := True\<rparr>
      else if wall = Left \<or> wall = Right then reflectHorizontal state (ball oldState)
      else reflectVertical state (ball oldState))"

definition handleBallBrickCollision :: "nat \<Rightarrow> Side \<Rightarrow> State \<Rightarrow> State \<Rightarrow> error + State" where
  "handleBallBrickCollision brickIndex side state oldState =
     (let state1 = (if side = Left \<or> side = Right
                    then reflectHorizontal state (ball oldState)
                    else reflectVertical state (ball oldState))
      in if brickIndex < length (bricks state1) then
           (let brick = bricks state1 ! brickIndex;
                state2 = state1\<lparr>bricks := splice1 brickIndex (bricks state1)\<rparr>
            in case powerup brick of
                 None \<Rightarrow> Inr state2
               | Some p \<Rightarrow>
                   Inr (state2\<lparr>powerups :=
                          powerups state2 @ [p\<lparr>powerup_pos := Some (brick_pos brick)\<rparr>]\<rparr>))
         else Inl TypeError)"

definition handleBallPaddleCollision :: "State \<Rightarrow> State \<Rightarrow> State" where
  "handleBallPaddleCollision state oldState =
     (let oldBall = ball oldState;
          tilt = pi * ((pos_x (ball_pos (ball state)) - pos_x (paddle_pos (paddle oldState)))
                       / (width (paddle oldState) + 20));
          angle' = (if arcsin (sin (angle oldBall)) > 0 then - pi / 2 + tilt else pi / 2 - tilt)
      in state\<lparr>ball := (ball state)
           \<lparr>angle := angle',
            ball_pos := (ball_pos (ball state))
              \<lparr>pos_y := pos_y (ball_pos oldBall) + speed oldBall * sin angle'\<rparr>\<rparr>\<rparr>)"

text \<open>
  The event's powerup is an object of the list, so the index is in range for every
  event that detection produced; an index out of range leaves the list as it is.
\<close>

definition handlePowerupPaddleCollision :: "nat \<Rightarrow> State \<Rightarrow> State" where
  "handlePowerupPaddleCollision k state =
     (if k < length (powerups state) then
        state\<lparr>powerups := (powerups state)
                 [k := (powerups state ! k)\<lparr>powerup_pos := None, active := True\<rparr>],
              paddle := (if ptype (powerups state ! k) = Expander
                         then (paddle state)\<lparr>desiredWidth := desiredWidth (paddle state) + 10\<rparr>
                         else paddle state)\<rparr>
      else state)"

fun handleCollisions :: "Collisions \<Rightarrow> State \<Rightarrow> State \<Rightarrow> error + State" where
  "handleCollisions [] state oldState = Inr state"
| "handleCollisions (collision # rest) state oldState =
     (case collision of
        BallBrick brickIndex side \<Rightarrow>
          (case handleBallBrickCollision brickIndex side state oldState of
             Inl e \<Rightarrow> Inl e
           | Inr state' \<Rightarrow> handleCollisions rest state' oldState)
      | BallWall wall \<Rightarrow>
          handleCollisions rest (handleBallWallCollision wall state oldState) oldState
      | BallPaddle \<Rightarrow>
          handleCollisions rest (handleBallPaddleCollision state oldState) oldState
      | PowerupPaddle k \<Rightarrow>
          handleCollisions rest (handlePowerupPaddleCollision k state) oldState)"

section \<open>One frame\<close>

text \<open>
  The body of the loop of \<^verbatim>\<open>main\<close>, without sound and drawing: the transition, the
  detection on the new and the old state, and the resolution. The result is the state
  that becomes the old state of the next frame, with the input set as the transition
  left it.
\<close>

definition frame :: "State \<Rightarrow> Inputs \<Rightarrow> error + (State \<times> Inputs)" where
  "frame oldState inputs =
     (let (state, inputs') = updateState oldState inputs
      in case handleCollisions (detectCollisions state oldState) state oldState of
           Inl e \<Rightarrow> Inl e
         | Inr state' \<Rightarrow> Inr (state', inputs'))"

section \<open>The side of a brick hit as the specification words it\<close>

text \<open>
  The specification's cascade: bottom if the old ball's bottom edge was at or above the
  brick's bottom edge; else top if the old ball's top edge was at or below the brick's
  top edge; else right if the old ball's left edge was at or beyond the brick's right
  edge; else left. The bottom edge of the ball is \<open>y + radius\<close> and its top edge
  \<open>y - radius\<close>, as in the specification's wall tests. It is compared with
  \<^const>\<open>brickSide\<close>, the cascade of the source.

  In \<open>specBrickSide\<close> ``above'' is read on the screen, where \<open>y\<close> grows downward:
  at or above is \<open>\<le>\<close>, at or below is \<open>\<ge>\<close>.
\<close>

definition specBrickSide :: "Ball \<Rightarrow> Brick \<Rightarrow> Side" where
  "specBrickSide oldBall brick =
     (let oldBottom = pos_y (ball_pos oldBall) + BALL_RADIUS;
          oldTop = pos_y (ball_pos oldBall) - BALL_RADIUS;
          oldLeft = pos_x (ball_pos oldBall) - BALL_RADIUS;
          brickTop = pos_y (brick_pos brick) - BRICK_HEIGHT / 2;
          brickBottom = pos_y (brick_pos brick) + BRICK_HEIGHT / 2;
          brickRight = pos_x (brick_pos brick) + BRICK_WIDTH / 2
      in if oldBottom \<le> brickBottom then Bottom
         else if oldTop \<ge> brickTop then Top
         else if oldLeft \<ge> brickRight then Right
         else Left)"

text \<open>
  In \<open>specBrickSideNumeric\<close> ``above'' is read on the numbers: at or above is \<open>\<ge>\<close>,
  at or below is \<open>\<le>\<close>.
\<close>

definition specBrickSideNumeric :: "Ball \<Rightarrow> Brick \<Rightarrow> Side" where
  "specBrickSideNumeric oldBall brick =
     (let oldBottom = pos_y (ball_pos oldBall) + BALL_RADIUS;
          oldTop = pos_y (ball_pos oldBall) - BALL_RADIUS;
          oldLeft = pos_x (ball_pos oldBall) - BALL_RADIUS;
          brickTop = pos_y (brick_pos brick) - BRICK_HEIGHT / 2;
          brickBottom = pos_y (brick_pos brick) + BRICK_HEIGHT / 2;
          brickRight = pos_x (brick_pos brick) + BRICK_WIDTH / 2
      in if oldBottom \<ge> brickBottom then Bottom
         else if oldTop \<le> brickTop then Top
         else if oldLeft \<ge> brickRight then Right
         else Left)"

section \<open>Concrete states\<close>

text \<open>
  The states at which the theorems below are evaluated: a 500 by 400 arena, the paddle
  on its line 20 above the bottom, as \<^const>\<open>createState\<close> lays it out.
\<close>

definition canvas0 :: Canvas where
  "canvas0 = \<lparr>canvas_width = 500, canvas_height = 400\<rparr>"

text \<open>Every draw of \<^verbatim>\<open>Math.random()\<close> is above 0.1875: no brick holds a powerup.\<close>

definition noPowerups :: "nat \<Rightarrow> real" where
  "noPowerups k = 1"

text \<open>The ball touches the top boundary from inside: its top edge is above the line.\<close>

definition wallState :: State where
  "wallState =
     \<lparr>isPaused = False, isServing = False,
      boundaries = \<lparr>xMin = 0, xMax = 500, yMin = 0, yMax = 400\<rparr>,
      ball = \<lparr>ball_pos = \<lparr>pos_x = 250, pos_y = 5\<rparr>, speed = 5, angle = - pi / 2\<rparr>,
      paddle = \<lparr>paddle_pos = \<lparr>pos_x = 250, pos_y = 380\<rparr>, width = 80, desiredWidth = 80\<rparr>,
      bricks = [], score = (0, 0), powerups = []\<rparr>"

text \<open>
  The ball touches the bottom boundary from inside: its bottom edge is below the line,
  its top edge is not.
\<close>

definition lowBallState :: State where
  "lowBallState =
     \<lparr>isPaused = False, isServing = False,
      boundaries = \<lparr>xMin = 0, xMax = 500, yMin = 0, yMax = 400\<rparr>,
      ball = \<lparr>ball_pos = \<lparr>pos_x = 100, pos_y = 395\<rparr>, speed = 5, angle = pi / 2\<rparr>,
      paddle = \<lparr>paddle_pos = \<lparr>pos_x = 250, pos_y = 380\<rparr>, width = 80, desiredWidth = 80\<rparr>,
      bricks = [], score = (0, 0), powerups = []\<rparr>"

text \<open>A paused game during a serve.\<close>

definition pausedState :: State where
  "pausedState =
     \<lparr>isPaused = True, isServing = True,
      boundaries = \<lparr>xMin = 0, xMax = 500, yMin = 0, yMax = 400\<rparr>,
      ball = \<lparr>ball_pos = \<lparr>pos_x = 250, pos_y = 364\<rparr>, speed = 0, angle = 0\<rparr>,
      paddle = \<lparr>paddle_pos = \<lparr>pos_x = 250, pos_y = 380\<rparr>, width = 80, desiredWidth = 80\<rparr>,
      bricks = [], score = (0, 0), powerups = []\<rparr>"

text \<open>The centre of the ball has passed the bottom boundary and the ball keeps falling.\<close>

definition fallingBallState :: State where
  "fallingBallState =
     \<lparr>isPaused = False, isServing = False,
      boundaries = \<lparr>xMin = 0, xMax = 500, yMin = 0, yMax = 400\<rparr>,
      ball = \<lparr>ball_pos = \<lparr>pos_x = 100, pos_y = 405\<rparr>, speed = 5, angle = pi / 2\<rparr>,
      paddle = \<lparr>paddle_pos = \<lparr>pos_x = 250, pos_y = 380\<rparr>, width = 80, desiredWidth = 80\<rparr>,
      bricks = [], score = (0, 0), powerups = []\<rparr>"

text \<open>
  The paddle rests against the left wall while a caught expander makes it grow
  (\<open>desiredWidth\<close> is 10 above \<open>width\<close>).
\<close>

definition growingPaddleState :: State where
  "growingPaddleState =
     \<lparr>isPaused = False, isServing = False,
      boundaries = \<lparr>xMin = 0, xMax = 500, yMin = 0, yMax = 400\<rparr>,
      ball = \<lparr>ball_pos = \<lparr>pos_x = 250, pos_y = 200\<rparr>, speed = 5, angle = - pi / 2\<rparr>,
      paddle = \<lparr>paddle_pos = \<lparr>pos_x = 40, pos_y = 380\<rparr>, width = 80, desiredWidth = 90\<rparr>,
      bricks = [], score = (0, 0), powerups = []\<rparr>"

text \<open>
  The ball rises straight up towards a brick that spans \<open>x\<close> from 75 to 125 and \<open>y\<close>
  from 80 to 105; its top edge is at 105.5, just below the brick.
\<close>

definition risingBallState :: State where
  "risingBallState =
     \<lparr>isPaused = False, isServing = False,
      boundaries = \<lparr>xMin = 0, xMax = 500, yMin = 0, yMax = 400\<rparr>,
      ball = \<lparr>ball_pos = \<lparr>pos_x = 100, pos_y = 113\<rparr>, speed = 5, angle = - pi / 2\<rparr>,
      paddle = \<lparr>paddle_pos = \<lparr>pos_x = 250, pos_y = 380\<rparr>, width = 80, desiredWidth = 80\<rparr>,
      bricks = [\<lparr>brick_pos = \<lparr>pos_x = 100, pos_y = 92.5\<rparr>, powerup = None\<rparr>],
      score = (0, 0), powerups = []\<rparr>"

text \<open>
  The ball comes level from the left of the same brick, at the height of the brick's
  bottom edge: its right edge is at 73.5, the brick starts at 75.
\<close>

definition sideBallState :: State where
  "sideBallState =
     \<lparr>isPaused = False, isServing = False,
      boundaries = \<lparr>xMin = 0, xMax = 500, yMin = 0, yMax = 400\<rparr>,
      ball = \<lparr>ball_pos = \<lparr>pos_x = 66, pos_y = 100\<rparr>, speed = 5, angle = 0\<rparr>,
      paddle = \<lparr>paddle_pos = \<lparr>pos_x = 250, pos_y = 380\<rparr>, width = 80, desiredWidth = 80\<rparr>,
      bricks = [\<lparr>brick_pos = \<lparr>pos_x = 100, pos_y = 92.5\<rparr>, powerup = None\<rparr>],
      score = (0, 0), powerups = []\<rparr>"

text \<open>
  The example scenario of the specification: the ball at \<open>(100, 100)\<close> with speed 5
  straight up, and the same brick.
\<close>

definition specExampleState :: State where
  "specExampleState =
     \<lparr>isPaused = False, isServing = False,
      boundaries = \<lparr>xMin = 0, xMax = 500, yMin = 0, yMax = 400\<rparr>,
      ball = \<lparr>ball_pos = \<lparr>pos_x = 100, pos_y = 100\<rparr>, speed = 5, angle = - pi / 2\<rparr>,
      paddle = \<lparr>paddle_pos = \<lparr>pos_x = 250, pos_y = 380\<rparr>, width = 80, desiredWidth = 80\<rparr>,
      bricks = [\<lparr>brick_pos = \<lparr>pos_x = 100, pos_y = 92.5\<rparr>, powerup = None\<rparr>],
      score = (0, 0), powerups = []\<rparr>"

text \<open>
  Bricks of the first row of the grid (50 wide, 10 apart), and a ball that rises
  straight up into the gap between the first two: 15 wide, it overlaps both.
\<close>

definition brickAt :: "real \<Rightarrow> real \<Rightarrow> Brick" where
  "brickAt bx by = \<lparr>brick_pos = \<lparr>pos_x = bx, pos_y = by\<rparr>, powerup = None\<rparr>"

definition gapBallState :: "Brick list \<Rightarrow> State" where
  "gapBallState bs =
     \<lparr>isPaused = False, isServing = False,
      boundaries = \<lparr>xMin = 0, xMax = 500, yMin = 0, yMax = 400\<rparr>,
      ball = \<lparr>ball_pos = \<lparr>pos_x = 70, pos_y = 63\<rparr>, speed = 5, angle = - pi / 2\<rparr>,
      paddle = \<lparr>paddle_pos = \<lparr>pos_x = 250, pos_y = 380\<rparr>, width = 80, desiredWidth = 80\<rparr>,
      bricks = bs, score = (0, 0), powerups = []\<rparr>"

text \<open>The ball moves up while its centre is inside the box of the paddle.\<close>

definition upBallInPaddleState :: State where
  "upBallInPaddleState =
     \<lparr>isPaused = False, isServing = False,
      boundaries = \<lparr>xMin = 0, xMax = 500, yMin = 0, yMax = 400\<rparr>,
      ball = \<lparr>ball_pos = \<lparr>pos_x = 250, pos_y = 384\<rparr>, speed = 5, angle = - pi / 2\<rparr>,
      paddle = \<lparr>paddle_pos = \<lparr>pos_x = 250, pos_y = 380\<rparr>, width = 80, desiredWidth = 80\<rparr>,
      bricks = [], score = (0, 0), powerups = []\<rparr>"

text \<open>The ball falls straight down onto the right half of the paddle.\<close>

definition downBallState :: State where
  "downBallState =
     \<lparr>isPaused = False, isServing = False,
      boundaries = \<lparr>xMin = 0, xMax = 500, yMin = 0, yMax = 400\<rparr>,
      ball = \<lparr>ball_pos = \<lparr>pos_x = 275, pos_y = 370\<rparr>, speed = 5, angle = pi / 2\<rparr>,
      paddle = \<lparr>paddle_pos = \<lparr>pos_x = 250, pos_y = 380\<rparr>, width = 80, desiredWidth = 80\<rparr>,
      bricks = [], score = (0, 0), powerups = []\<rparr>"




text \<open>
  The state after a first frame from the initial state with the pause key held: the
  game is paused, the initial ball has been mirrored once, and the bricks at the indices
  3 and 5 of the grid are gone.
\<close>

definition pausedStartState :: State where
  "pausedStartState =
     (createState canvas0 noPowerups)
       \<lparr>isPaused := True,
        ball := \<lparr>ball_pos = \<lparr>pos_x = 248.5, pos_y = 27.5\<rparr>, speed = 3, angle = 2 * pi / 3\<rparr>,
        bricks := splice1 4 (splice1 3 (createBricks noPowerups))\<rparr>"

section \<open>Unfolding and frame lemmas\<close>

declare updatePowerupsLoop.simps [simp del]

lemmas globals_defs =
  BALL_RADIUS_def BALL_SPEED_def PADDLE_WIDTH_def PADDLE_HEIGHT_def PADDLE_SPEED_def
  PADDLE_OFFSET_Y_def BRICK_WIDTH_def BRICK_HEIGHT_def BRICK_COLS_def BRICK_ROWS_def
  POWERUP_DROP_SPEED_def

lemmas detect_defs =
  detectCollisions_def detectBallWallCollision_def detectBallBrickCollision_def
  detectBallPaddleCollision_def detectPowerupPaddleCollision_def
  ballOverlapsBrick_def brickSide_def

lemmas update_defs =
  updateState_def updatePause_def updateServingPaddle_def updatePowerups_def
  updatePowerupsLoop.simps updatePaddle_def updateBall_def

lemmas handle_defs =
  handleBallWallCollision_def handleBallBrickCollision_def handleBallPaddleCollision_def
  handlePowerupPaddleCollision_def reflectHorizontal_def reflectVertical_def splice1_def

text \<open>What each step of the transition leaves alone.\<close>

lemma updateServingPaddle_fields [simp]:
  "isPaused (updateServingPaddle state oldState inputs) = isPaused state"
  "boundaries (updateServingPaddle state oldState inputs) = boundaries state"
  "ball (updateServingPaddle state oldState inputs) = ball state"
  "paddle (updateServingPaddle state oldState inputs) = paddle state"
  "bricks (updateServingPaddle state oldState inputs) = bricks state"
  "score (updateServingPaddle state oldState inputs) = score state"
  "powerups (updateServingPaddle state oldState inputs) = powerups state"
  by (simp_all add: updateServingPaddle_def)

lemma updatePowerups_fields [simp]:
  "isPaused (updatePowerups state) = isPaused state"
  "isServing (updatePowerups state) = isServing state"
  "boundaries (updatePowerups state) = boundaries state"
  "ball (updatePowerups state) = ball state"
  "bricks (updatePowerups state) = bricks state"
  "score (updatePowerups state) = score state"
  "paddle_pos (paddle (updatePowerups state)) = paddle_pos (paddle state)"
  "width (paddle (updatePowerups state)) = width (paddle state)"
  by (simp_all add: updatePowerups_def split: prod.splits)

lemma updatePaddle_fields [simp]:
  "isPaused (updatePaddle state oldState inputs) = isPaused state"
  "isServing (updatePaddle state oldState inputs) = isServing state"
  "boundaries (updatePaddle state oldState inputs) = boundaries state"
  "ball (updatePaddle state oldState inputs) = ball state"
  "bricks (updatePaddle state oldState inputs) = bricks state"
  "score (updatePaddle state oldState inputs) = score state"
  "powerups (updatePaddle state oldState inputs) = powerups state"
  "desiredWidth (paddle (updatePaddle state oldState inputs)) = desiredWidth (paddle state)"
  "pos_y (paddle_pos (paddle (updatePaddle state oldState inputs)))
     = pos_y (paddle_pos (paddle state))"
  by (simp_all add: updatePaddle_def Let_def)

lemma updateBall_fields [simp]:
  "isPaused (updateBall state oldState) = isPaused state"
  "isServing (updateBall state oldState) = isServing state"
  "boundaries (updateBall state oldState) = boundaries state"
  "paddle (updateBall state oldState) = paddle state"
  "bricks (updateBall state oldState) = bricks state"
  "score (updateBall state oldState) = score state"
  "powerups (updateBall state oldState) = powerups state"
  by (simp_all add: updateBall_def Let_def)

lemma updateState_paused_id:
  assumes "isPaused oldState" and "''p'' \<notin> inputs"
  shows "updateState oldState inputs = (oldState, inputs)"
  using assms by (simp add: updateState_def updatePause_def)

text \<open>The powerup tick only ever lowers the desired width.\<close>

lemma updatePowerupsLoop_desiredWidth_le:
  "snd (updatePowerupsLoop i ps dw) \<le> dw"
proof (induction i ps dw rule: updatePowerupsLoop.induct)
  case (1 i ps dw)
  then show ?case
    by (subst updatePowerupsLoop.simps) (auto split: option.splits)
qed

lemma updatePowerups_desiredWidth_le:
  "desiredWidth (paddle (updatePowerups state)) \<le> desiredWidth (paddle state)"
  using updatePowerupsLoop_desiredWidth_le [of 0 "powerups state" "desiredWidth (paddle state)"]
  by (simp add: updatePowerups_def case_prod_beta)

text \<open>Wall events come from the wall detector only.\<close>

lemma detectBallBrickLoop_no_wall:
  "BallWall w \<notin> set (detectBallBrickLoop b oldBall k bs)"
  by (induction bs arbitrary: k) auto

lemma detectPowerupPaddleLoop_no_wall:
  "BallWall w \<notin> set (detectPowerupPaddleLoop pad k ps)"
  by (induction ps arbitrary: k) (auto split: option.splits)

lemma detectCollisions_wall_mem:
  "(BallWall w \<in> set (detectCollisions state oldState)) =
     (BallWall w \<in> set (detectBallWallCollision state))"
  by (simp add: detectCollisions_def detectBallBrickCollision_def
      detectBallPaddleCollision_def detectPowerupPaddleCollision_def
      detectBallBrickLoop_no_wall detectPowerupPaddleLoop_no_wall)

section \<open>Wall events (C1)\<close>

text \<open>
  C1, as claimed: a bottom event exactly when the ball's bottom edge \<open>y + BALL_RADIUS\<close>
  is below \<open>yMax\<close>. The claim fails at \<^const>\<open>lowBallState\<close>: the ball's centre is 5
  above the bottom boundary, its bottom edge is 2.5 below it, and no bottom event is
  reported. The ball is lost, and the serve re-entered, only when the whole ball has left
  the arena: the detector compares the far edge \<open>y - BALL_RADIUS\<close>.
\<close>

theorem wall_bottom_counterexample:
  "pos_y (ball_pos (ball lowBallState)) + BALL_RADIUS > yMax (boundaries lowBallState)
   \<and> BallWall Bottom \<notin> set (detectCollisions lowBallState lowBallState)"
  by (simp add: lowBallState_def detect_defs globals_defs)

text \<open>
  C1, amended: collision detection reports a left event exactly when the ball's left
  edge is beyond the left boundary (\<open>x - BALL_RADIUS < xMin\<close>), a right event exactly
  when its right edge is beyond the right boundary (\<open>x + BALL_RADIUS > xMax\<close>), and a
  bottom event exactly when the whole ball is beyond the bottom boundary
  (\<open>y - BALL_RADIUS > yMax\<close>). The tests are independent of each other.
\<close>

theorem detectBallWallCollision_walls:
  "(BallWall Left \<in> set (detectCollisions state oldState)) =
     (pos_x (ball_pos (ball state)) - BALL_RADIUS < xMin (boundaries state))
   \<and> (BallWall Right \<in> set (detectCollisions state oldState)) =
     (pos_x (ball_pos (ball state)) + BALL_RADIUS > xMax (boundaries state))
   \<and> (BallWall Bottom \<in> set (detectCollisions state oldState)) =
     (pos_y (ball_pos (ball state)) - BALL_RADIUS > yMax (boundaries state))"
  by (simp add: detectCollisions_wall_mem detectBallWallCollision_def)

text \<open>
  The top wall is a wall that the ball bounces off, as it bounces off the side walls,
  but its test reads the far edge like the test of the bottom: at \<^const>\<open>wallState\<close> the
  top edge of the ball is 2.5 above the boundary and no top event is reported.
\<close>

lemma wall_top_far_edge:
  "pos_y (ball_pos (ball wallState)) - BALL_RADIUS < yMin (boundaries wallState)
   \<and> BallWall Top \<notin> set (detectCollisions wallState wallState)"
  by (simp add: wallState_def detect_defs globals_defs)

section \<open>The serving invariant (C2)\<close>

text \<open>
  What the transition does establish: when the state it returns is not paused and has
  \<open>isServing\<close>, the ball of that state is at rest on the paddle.
\<close>

lemma updateState_serving_ball:
  assumes "\<not> isPaused (fst (updateState oldState inputs))"
    and "isServing (fst (updateState oldState inputs))"
  shows "speed (ball (fst (updateState oldState inputs))) = 0
       \<and> angle (ball (fst (updateState oldState inputs))) = 0
       \<and> pos_x (ball_pos (ball (fst (updateState oldState inputs))))
           = pos_x (paddle_pos (paddle (fst (updateState oldState inputs))))
       \<and> pos_y (ball_pos (ball (fst (updateState oldState inputs))))
           = pos_y (paddle_pos (paddle (fst (updateState oldState inputs))))
             - (PADDLE_HEIGHT / 2 + BALL_RADIUS + 1)"
  using assms
  by (auto simp: updateState_def updateBall_def Let_def split: prod.splits if_splits)

text \<open>
  C2 (whenever \<open>isServing\<close> is true, the ball has speed 0 and sits at the paddle
  offset) at the two states that the claim names. The initial state has \<open>isServing\<close>,
  and its ball has speed 3 and is at \<open>y = 27.5\<close>, while the paddle offset is at 364.
  The frame from \<^const>\<open>fallingBallState\<close> ends with \<open>isServing\<close> set by the
  bottom-wall handler, and its ball still has speed 5 and is below the arena. In both
  the flag says that the ball is stuck to the paddle, and the ball is not.
\<close>

theorem serving_with_moving_ball:
  "isServing (createState canvas0 noPowerups)
   \<and> speed (ball (createState canvas0 noPowerups)) = 3
   \<and> pos_y (ball_pos (ball (createState canvas0 noPowerups))) = 27.5
   \<and> pos_y (paddle_pos (paddle (createState canvas0 noPowerups)))
       - (PADDLE_HEIGHT / 2 + BALL_RADIUS + 1) = 364
   \<and> frame fallingBallState {} =
       Inr (fallingBallState
              \<lparr>isServing := True,
               ball := (ball fallingBallState)\<lparr>ball_pos := \<lparr>pos_x = 100, pos_y = 410\<rparr>\<rparr>\<rparr>, {})
   \<and> speed (ball fallingBallState) = 5"
  by (simp add: createState_def canvas0_def fallingBallState_def frame_def update_defs
      detect_defs handle_defs Let_def globals_defs)

section \<open>The paddle stays in the arena (C3)\<close>

text \<open>
  What the clamp of the two arrow branches does keep: from a paddle that is inside the
  arena with its old width, the new centre is inside the same interval, and inside the
  interval of the new width when the paddle does not grow.
\<close>

lemma updateState_paddle_bounds:
  assumes lo: "xMin (boundaries oldState) + width (paddle oldState) / 2
                 \<le> pos_x (paddle_pos (paddle oldState))"
    and hi: "pos_x (paddle_pos (paddle oldState))
                 \<le> xMax (boundaries oldState) - width (paddle oldState) / 2"
  shows "xMin (boundaries oldState) + width (paddle oldState) / 2
           \<le> pos_x (paddle_pos (paddle (fst (updateState oldState inputs))))
       \<and> pos_x (paddle_pos (paddle (fst (updateState oldState inputs))))
           \<le> xMax (boundaries oldState) - width (paddle oldState) / 2
       \<and> (desiredWidth (paddle oldState) \<le> width (paddle oldState) \<longrightarrow>
            xMin (boundaries (fst (updateState oldState inputs)))
              + width (paddle (fst (updateState oldState inputs))) / 2
              \<le> pos_x (paddle_pos (paddle (fst (updateState oldState inputs))))
          \<and> pos_x (paddle_pos (paddle (fst (updateState oldState inputs))))
              \<le> xMax (boundaries (fst (updateState oldState inputs)))
                 - width (paddle (fst (updateState oldState inputs))) / 2)"
proof (cases "isPaused (fst (updatePause oldState inputs))")
  case True
  then have "fst (updateState oldState inputs) = fst (updatePause oldState inputs)"
    by (simp add: updateState_def case_prod_beta)
  then show ?thesis
    using lo hi by (simp add: updatePause_def split: if_splits)
next
  case False
  define st where "st = updatePowerups
      (updateServingPaddle (fst (updatePause oldState inputs)) oldState
         (snd (updatePause oldState inputs)))"
  have new: "fst (updateState oldState inputs)
      = updateBall (updatePaddle st oldState (snd (updatePause oldState inputs))) oldState"
    using False by (simp add: updateState_def case_prod_beta st_def)
  have pad: "paddle (fst (updatePause oldState inputs)) = paddle oldState"
    and bnd: "boundaries (fst (updatePause oldState inputs)) = boundaries oldState"
    by (simp_all add: updatePause_def)
  have w: "width (paddle st) = width (paddle oldState)"
    and x: "paddle_pos (paddle st) = paddle_pos (paddle oldState)"
    and b: "boundaries st = boundaries oldState"
    by (simp_all add: st_def pad bnd)
  have d: "desiredWidth (paddle st) \<le> desiredWidth (paddle oldState)"
    using updatePowerups_desiredWidth_le
      [of "updateServingPaddle (fst (updatePause oldState inputs)) oldState
             (snd (updatePause oldState inputs))"]
    by (simp add: st_def pad)
  define x' where "x' = pos_x (paddle_pos (paddle (fst (updateState oldState inputs))))"
  define w' where "w' = width (paddle (fst (updateState oldState inputs)))"
  have xlo: "xMin (boundaries oldState) + width (paddle oldState) / 2 \<le> x'"
    and xhi: "x' \<le> xMax (boundaries oldState) - width (paddle oldState) / 2"
    using lo hi
    by (simp_all add: x'_def new updatePaddle_def Let_def x PADDLE_SPEED_def min_def max_def)
  have wle: "w' \<le> width (paddle oldState)"
    if "desiredWidth (paddle oldState) \<le> width (paddle oldState)"
    using that d
    by (simp add: w'_def new updatePaddle_def Let_def w min_def max_def)
  have bnew: "boundaries (fst (updateState oldState inputs)) = boundaries oldState"
    by (simp add: new b)
  show ?thesis
    unfolding bnew x'_def [symmetric] w'_def [symmetric]
    using xlo xhi wle by auto
qed

text \<open>
  C3 (after every transition the paddle centre is within
  \<open>[xMin + width / 2, xMax - width / 2]\<close> for the new width) at
  \<^const>\<open>growingPaddleState\<close>: the paddle rests against the left wall at \<open>x = 40\<close> with
  width 80, inside the arena, while a caught expander makes it grow. No key is held, the
  width becomes 81, the centre stays at 40, and the left edge of the paddle is outside
  the arena: the width animation is not followed by the clamp that the arrow branches
  apply.
\<close>

theorem growing_paddle_leaves_arena:
  "xMin (boundaries growingPaddleState) + width (paddle growingPaddleState) / 2
     \<le> pos_x (paddle_pos (paddle growingPaddleState))
   \<and> pos_x (paddle_pos (paddle (fst (updateState growingPaddleState {})))) = 40
   \<and> width (paddle (fst (updateState growingPaddleState {}))) = 81
   \<and> pos_x (paddle_pos (paddle (fst (updateState growingPaddleState {}))))
     < xMin (boundaries (fst (updateState growingPaddleState {})))
       + width (paddle (fst (updateState growingPaddleState {}))) / 2"
  by (simp add: growingPaddleState_def update_defs Let_def)

section \<open>The side of a brick hit (C4)\<close>

text \<open>Which brick events the detectors report.\<close>

lemma detectBallBrickLoop_mem:
  "(BallBrick i sd \<in> set (detectBallBrickLoop b oldBall k bs)) =
     (k \<le> i \<and> i - k < length bs \<and> ballOverlapsBrick b (bs ! (i - k))
      \<and> sd = brickSide oldBall (bs ! (i - k)))"
proof (induction bs arbitrary: k)
  case Nil
  then show ?case by simp
next
  case (Cons brick rest)
  show ?case
  proof (cases "i = k")
    case True
    with Cons.IH [of "Suc k"] show ?thesis by auto
  next
    case False
    show ?thesis
    proof (cases "k < i")
      case True
      then obtain n where n: "i - k = Suc n" "i - Suc k = n"
        by (metis Suc_diff_Suc diff_Suc_Suc)
      from True Cons.IH [of "Suc k"] show ?thesis
        by (auto simp: n)
    next
      case lt: False
      with False Cons.IH [of "Suc k"] show ?thesis by auto
    qed
  qed
qed

lemma detectPowerupPaddleLoop_no_brick:
  "BallBrick i sd \<notin> set (detectPowerupPaddleLoop pad k ps)"
  by (induction ps arbitrary: k) (auto split: option.splits)

lemma detectCollisions_brick_mem:
  "(BallBrick i sd \<in> set (detectCollisions state oldState)) =
     (i < length (bricks state) \<and> ballOverlapsBrick (ball state) (bricks state ! i)
      \<and> sd = brickSide (ball oldState) (bricks state ! i))"
  by (simp add: detectCollisions_def detectBallWallCollision_def detectBallBrickCollision_def
      detectBallPaddleCollision_def detectPowerupPaddleCollision_def
      detectBallBrickLoop_mem detectPowerupPaddleLoop_no_brick)

text \<open>
  C4, as claimed: the side is bottom if the old ball's bottom edge was at or above the
  brick's bottom edge, else top if the old ball's top edge was at or below the brick's
  top edge. The claim fails at \<^const>\<open>sideBallState\<close>, whichever way ``above'' is read:
  the ball comes from the left of the brick, which it did not touch before, and the event
  says left; the old ball spans \<open>y\<close> from 92.5 to 107.5 and the brick from 80 to 105, so
  the claimed cascade says top with the reading of the screen and bottom with the reading
  of the numbers. The source compares the opposite edges: the old ball's \<open>y - radius\<close>
  with the brick's bottom, and its \<open>y + radius\<close> with the brick's top.
\<close>

theorem brick_side_counterexample:
  "\<not> ballOverlapsBrick (ball sideBallState) (bricks sideBallState ! 0)
   \<and> detectCollisions (fst (updateState sideBallState {})) sideBallState = [BallBrick 0 Left]
   \<and> specBrickSide (ball sideBallState) (bricks (fst (updateState sideBallState {})) ! 0) = Top
   \<and> specBrickSideNumeric (ball sideBallState) (bricks (fst (updateState sideBallState {})) ! 0)
       = Bottom"
  by (simp add: sideBallState_def specBrickSide_def specBrickSideNumeric_def update_defs
      detect_defs Let_def globals_defs)

text \<open>
  In the example scenario of the specification the old ball already overlaps the brick,
  and the event says left, where the specification expects bottom.
\<close>

lemma spec_example_side:
  "pos_y (ball_pos (ball (fst (updateState specExampleState {})))) = 95
   \<and> detectCollisions (fst (updateState specExampleState {})) specExampleState
       = [BallBrick 0 Left]"
  by (simp add: specExampleState_def update_defs detect_defs Let_def globals_defs)

text \<open>
  C4, amended: for every brick whose box overlaps the box of the new ball, an event
  with its index and a side is reported exactly for the side read from the old ball: bottom if
  the old ball's top edge was at or below the brick's bottom edge (the ball was wholly
  below the brick); else top if the old ball's bottom edge was at or above the brick's
  top edge (wholly above); else right if the old ball's left edge was at or beyond the
  brick's right edge; else left.
\<close>

theorem detectBallBrickCollision_side:
  assumes "i < length (bricks state)"
    and "ballOverlapsBrick (ball state) (bricks state ! i)"
  shows "(BallBrick i sd \<in> set (detectCollisions state oldState)) =
     (sd = (if pos_y (ball_pos (ball oldState)) - BALL_RADIUS
                \<ge> pos_y (brick_pos (bricks state ! i)) + BRICK_HEIGHT / 2 then Bottom
            else if pos_y (ball_pos (ball oldState)) + BALL_RADIUS
                \<le> pos_y (brick_pos (bricks state ! i)) - BRICK_HEIGHT / 2 then Top
            else if pos_x (ball_pos (ball oldState)) - BALL_RADIUS
                \<ge> pos_x (brick_pos (bricks state ! i)) + BRICK_WIDTH / 2 then Right
            else Left))"
  using assms by (simp add: detectCollisions_brick_mem brickSide_def Let_def)

theorem detectBallBrickCollision_side_witness:
  "0 < length (bricks (fst (updateState risingBallState {})))
   \<and> ballOverlapsBrick (ball (fst (updateState risingBallState {})))
        (bricks (fst (updateState risingBallState {})) ! 0)
   \<and> BallBrick 0 Bottom
        \<in> set (detectCollisions (fst (updateState risingBallState {})) risingBallState)"
proof -
  let ?s = "fst (updateState risingBallState {})"
  have l: "0 < length (bricks ?s)"
    by (simp add: risingBallState_def update_defs Let_def)
  have o: "ballOverlapsBrick (ball ?s) (bricks ?s ! 0)"
    by (simp add: risingBallState_def update_defs ballOverlapsBrick_def Let_def globals_defs)
  have b: "bricks ?s ! 0 = \<lparr>brick_pos = \<lparr>pos_x = 100, pos_y = 92.5\<rparr>, powerup = None\<rparr>"
    by (simp add: risingBallState_def update_defs Let_def)
  show ?thesis
    using detectBallBrickCollision_side [OF l o, of Bottom risingBallState] l o
    by (simp add: b) (simp add: risingBallState_def globals_defs)
qed

section \<open>Brick removal (C5)\<close>

text \<open>
  C5 at a ball in the gap between the first two bricks of a row
  (\<^const>\<open>gapBallState\<close>): both bricks are hit, the events name the indices 0 and 1, and
  resolution takes them in that order. Removing brick 0 shifts the list, so the second
  event removes what is then at index 1: the third brick, which the ball does not
  touch, while the second brick, which was hit, stays. When the two bricks are the last
  two of the list, the second removal is past the end and the handler throws.
\<close>

lemma gapBallState_update:
  "updateState (gapBallState bs) {} =
     ((gapBallState bs)
        \<lparr>ball := (ball (gapBallState bs))\<lparr>ball_pos := \<lparr>pos_x = 70, pos_y = 58\<rparr>\<rparr>\<rparr>, {})"
  by (simp add: gapBallState_def update_defs Let_def globals_defs)

theorem two_brick_hits_remove_wrong_brick:
  "detectCollisions
      (fst (updateState (gapBallState [brickAt 40 40, brickAt 100 40, brickAt 160 40]) {}))
      (gapBallState [brickAt 40 40, brickAt 100 40, brickAt 160 40])
     = [BallBrick 0 Bottom, BallBrick 1 Bottom]
   \<and> \<not> ballOverlapsBrick
         (ball (fst (updateState
                       (gapBallState [brickAt 40 40, brickAt 100 40, brickAt 160 40]) {})))
         (brickAt 160 40)
   \<and> frame (gapBallState [brickAt 40 40, brickAt 100 40, brickAt 160 40]) {}
     = Inr ((gapBallState [brickAt 100 40])
              \<lparr>ball := (ball (gapBallState [brickAt 100 40]))
                          \<lparr>ball_pos := \<lparr>pos_x = 70, pos_y = 58\<rparr>\<rparr>\<rparr>, {})
   \<and> frame (gapBallState [brickAt 40 40, brickAt 100 40]) {} = Inl TypeError"
  by (simp add: frame_def gapBallState_update)
    (simp add: gapBallState_def brickAt_def detect_defs handle_defs Let_def globals_defs)

section \<open>The bounce off the paddle (C6)\<close>

lemma arcsin_sin_pos_iff: "(0 < arcsin (sin a)) = (0 < sin a)"
  using arcsin_less_mono [of 0 "sin a"] by simp

lemma sin_neg_between: "- pi < a \<Longrightarrow> a < 0 \<Longrightarrow> sin a < 0"
  using sin_gt_zero [of "- a"] by simp

lemma tilt_bound:
  fixes d w :: real
  assumes "0 < w" and "\<bar>d\<bar> < w / 2"
  shows "\<bar>pi * (d / w)\<bar> < pi / 2"
proof -
  have "\<bar>d / w\<bar> < 1 / 2"
    using assms by (simp add: field_simps abs_if split: if_splits)
  then have "pi * \<bar>d / w\<bar> < pi * (1 / 2)"
    using pi_gt_zero by (simp only: mult_less_cancel_left_pos)
  then show ?thesis
    by (simp add: abs_mult)
qed

text \<open>
  One transition widens the paddle by at most 1, so a paddle hit is only detected after
  it when the old width is above \<open>-1\<close>: the divisor \<open>width + 20\<close> of the tilt is
  positive at every hit of the frame pipeline.
\<close>

lemma updateState_width_step:
  "width (paddle (fst (updateState oldState inputs))) \<le> width (paddle oldState) + 1"
proof (cases "isPaused (fst (updatePause oldState inputs))")
  case True
  then have "fst (updateState oldState inputs) = fst (updatePause oldState inputs)"
    by (simp add: updateState_def case_prod_beta)
  then show ?thesis
    by (simp add: updatePause_def split: if_splits)
next
  case False
  then show ?thesis
    by (simp add: updateState_def case_prod_beta updatePaddle_def Let_def updatePause_def
        min_def max_def split: if_splits)
qed

lemma paddle_hit_positive_width:
  assumes "detectBallPaddleCollision (fst (updateState oldState inputs)) = [BallPaddle]"
  shows "0 < width (paddle oldState) + 20"
proof -
  define s where "s = fst (updateState oldState inputs)"
  have "pos_x (ball_pos (ball s)) > pos_x (paddle_pos (paddle s)) - width (paddle s) / 2"
    "pos_x (ball_pos (ball s)) < pos_x (paddle_pos (paddle s)) + width (paddle s) / 2"
    using assms by (simp_all add: s_def detectBallPaddleCollision_def split: if_splits)
  then have "0 < width (paddle s)" by simp
  with updateState_width_step [of oldState inputs] show ?thesis
    by (simp add: s_def)
qed

text \<open>
  One transition moves a paddle that is inside the arena by at most \<^const>\<open>PADDLE_SPEED\<close>,
  so a ball that is then detected inside the box of the new paddle is within half of the
  old width plus 20 of the old paddle centre. (A paddle that has grown out of the arena
  can be moved further by the clamp.)
\<close>

lemma updateState_paddle_step:
  assumes lo: "xMin (boundaries oldState) + width (paddle oldState) / 2
                 \<le> pos_x (paddle_pos (paddle oldState))"
    and hi: "pos_x (paddle_pos (paddle oldState))
                 \<le> xMax (boundaries oldState) - width (paddle oldState) / 2"
  shows "\<bar>pos_x (paddle_pos (paddle (fst (updateState oldState inputs))))
           - pos_x (paddle_pos (paddle oldState))\<bar> \<le> PADDLE_SPEED
       \<and> width (paddle (fst (updateState oldState inputs))) \<le> width (paddle oldState) + 1"
proof (cases "isPaused (fst (updatePause oldState inputs))")
  case True
  then have "fst (updateState oldState inputs) = fst (updatePause oldState inputs)"
    by (simp add: updateState_def case_prod_beta)
  then show ?thesis
    by (simp add: updatePause_def PADDLE_SPEED_def split: if_splits)
next
  case False
  define st where "st = updatePowerups
      (updateServingPaddle (fst (updatePause oldState inputs)) oldState
         (snd (updatePause oldState inputs)))"
  have new: "fst (updateState oldState inputs)
      = updateBall (updatePaddle st oldState (snd (updatePause oldState inputs))) oldState"
    using False by (simp add: updateState_def case_prod_beta st_def)
  have pad: "paddle (fst (updatePause oldState inputs)) = paddle oldState"
    by (simp add: updatePause_def)
  have w: "width (paddle st) = width (paddle oldState)"
    and x: "paddle_pos (paddle st) = paddle_pos (paddle oldState)"
    by (simp_all add: st_def pad)
  have "\<bar>pos_x (paddle_pos (paddle (fst (updateState oldState inputs))))
           - pos_x (paddle_pos (paddle oldState))\<bar> \<le> PADDLE_SPEED"
    using lo hi
    by (simp add: new updatePaddle_def Let_def x PADDLE_SPEED_def min_def max_def)
  moreover
  have "width (paddle (fst (updateState oldState inputs))) \<le> width (paddle oldState) + 1"
    by (simp add: new updatePaddle_def Let_def w min_def max_def)
  ultimately show ?thesis by simp
qed

lemma paddle_hit_within_margin:
  assumes lo: "xMin (boundaries oldState) + width (paddle oldState) / 2
                 \<le> pos_x (paddle_pos (paddle oldState))"
    and hi: "pos_x (paddle_pos (paddle oldState))
                 \<le> xMax (boundaries oldState) - width (paddle oldState) / 2"
    and hit: "detectBallPaddleCollision (fst (updateState oldState inputs)) = [BallPaddle]"
  shows "0 < width (paddle oldState) + 20
       \<and> \<bar>pos_x (ball_pos (ball (fst (updateState oldState inputs))))
            - pos_x (paddle_pos (paddle oldState))\<bar> < (width (paddle oldState) + 20) / 2"
proof -
  define s where "s = fst (updateState oldState inputs)"
  have step: "\<bar>pos_x (paddle_pos (paddle s)) - pos_x (paddle_pos (paddle oldState))\<bar> \<le> 2"
    "width (paddle s) \<le> width (paddle oldState) + 1"
    using updateState_paddle_step [OF lo hi, of inputs]
    by (simp_all add: s_def PADDLE_SPEED_def)
  have box: "pos_x (ball_pos (ball s)) > pos_x (paddle_pos (paddle s)) - width (paddle s) / 2"
    "pos_x (ball_pos (ball s)) < pos_x (paddle_pos (paddle s)) + width (paddle s) / 2"
    using hit by (simp_all add: s_def detectBallPaddleCollision_def split: if_splits)
  show ?thesis
    unfolding s_def [symmetric] using step box by (auto simp: abs_if split: if_splits)
qed

text \<open>
  C6, as claimed: the resulting angle always has a non-positive sine. The claim fails at
  \<^const>\<open>upBallInPaddleState\<close>: the ball moves up (\<open>sin\<close> of the old angle is \<open>-1\<close>) while
  its centre enters the box of the paddle, the second branch is taken, and the new angle
  is \<open>\<pi>/2\<close>, straight down.
\<close>

theorem paddle_bounce_counterexample:
  "detectCollisions (fst (updateState upBallInPaddleState {})) upBallInPaddleState = [BallPaddle]
   \<and> frame upBallInPaddleState {} =
       Inr (upBallInPaddleState
              \<lparr>ball := \<lparr>ball_pos = \<lparr>pos_x = 250, pos_y = 389\<rparr>, speed = 5, angle = pi / 2\<rparr>\<rparr>, {})
   \<and> sin (angle (ball (handleBallPaddleCollision (fst (updateState upBallInPaddleState {}))
                         upBallInPaddleState))) = 1"
  by (simp add: upBallInPaddleState_def frame_def update_defs detect_defs handle_defs Let_def
      globals_defs)

text \<open>
  C6, amended: for every resolved paddle hit, with
  \<open>tilt = \<pi> * (newBallX - oldPaddleX) / (oldPaddleWidth + 20)\<close>, the new angle is
  \<open>-\<pi>/2 + tilt\<close> when the sine of the old angle is positive and \<open>\<pi>/2 - tilt\<close> otherwise,
  the ball's \<open>y\<close> is recomputed from the old position with the new angle, and its \<open>x\<close>
  and speed are left as they are. When moreover the ball is within half of
  \<open>oldPaddleWidth + 20\<close> of the old paddle centre, the bounce reverses the vertical
  direction: a ball that came down (positive sine) leaves upward (negative sine), and a
  ball that came up (negative sine) leaves downward (positive sine).
\<close>

theorem handleBallPaddleCollision_angle:
  "angle (ball (handleBallPaddleCollision state oldState)) =
           (if 0 < sin (angle (ball oldState))
            then - pi / 2
                 + pi * ((pos_x (ball_pos (ball state)) - pos_x (paddle_pos (paddle oldState)))
                         / (width (paddle oldState) + 20))
            else pi / 2
                 - pi * ((pos_x (ball_pos (ball state)) - pos_x (paddle_pos (paddle oldState)))
                         / (width (paddle oldState) + 20)))
   \<and> pos_y (ball_pos (ball (handleBallPaddleCollision state oldState))) =
           pos_y (ball_pos (ball oldState))
           + speed (ball oldState) * sin (angle (ball (handleBallPaddleCollision state oldState)))
   \<and> pos_x (ball_pos (ball (handleBallPaddleCollision state oldState)))
       = pos_x (ball_pos (ball state))
   \<and> speed (ball (handleBallPaddleCollision state oldState)) = speed (ball state)
   \<and> (0 < width (paddle oldState) + 20
       \<and> \<bar>pos_x (ball_pos (ball state)) - pos_x (paddle_pos (paddle oldState))\<bar>
              < (width (paddle oldState) + 20) / 2
       \<longrightarrow> (0 < sin (angle (ball oldState))
              \<longrightarrow> sin (angle (ball (handleBallPaddleCollision state oldState))) < 0)
         \<and> (sin (angle (ball oldState)) < 0
              \<longrightarrow> 0 < sin (angle (ball (handleBallPaddleCollision state oldState)))))"
proof -
  define tilt where
    "tilt = pi * ((pos_x (ball_pos (ball state)) - pos_x (paddle_pos (paddle oldState)))
                  / (width (paddle oldState) + 20))"
  have a: "angle (ball (handleBallPaddleCollision state oldState)) =
           (if 0 < sin (angle (ball oldState)) then - pi / 2 + tilt else pi / 2 - tilt)"
    by (simp add: handleBallPaddleCollision_def Let_def arcsin_sin_pos_iff tilt_def)
  have y: "pos_y (ball_pos (ball (handleBallPaddleCollision state oldState))) =
           pos_y (ball_pos (ball oldState))
           + speed (ball oldState) * sin (angle (ball (handleBallPaddleCollision state oldState)))"
    by (simp add: handleBallPaddleCollision_def Let_def)
  have x: "pos_x (ball_pos (ball (handleBallPaddleCollision state oldState)))
       = pos_x (ball_pos (ball state))"
    and v: "speed (ball (handleBallPaddleCollision state oldState)) = speed (ball state)"
    by (simp_all add: handleBallPaddleCollision_def Let_def)
  have dir: "(0 < sin (angle (ball oldState))
              \<longrightarrow> sin (angle (ball (handleBallPaddleCollision state oldState))) < 0)
         \<and> (sin (angle (ball oldState)) < 0
              \<longrightarrow> 0 < sin (angle (ball (handleBallPaddleCollision state oldState))))"
    if w: "0 < width (paddle oldState) + 20"
      and d: "\<bar>pos_x (ball_pos (ball state)) - pos_x (paddle_pos (paddle oldState))\<bar>
              < (width (paddle oldState) + 20) / 2"
  proof -
    have t: "\<bar>tilt\<bar> < pi / 2"
      unfolding tilt_def using w d by (rule tilt_bound)
    have up: "sin (- pi / 2 + tilt) < 0"
      using t by (intro sin_neg_between) (simp_all add: abs_less_iff)
    have down: "0 < sin (pi / 2 - tilt)"
      using t by (intro sin_gt_zero) (simp_all add: abs_less_iff)
    show ?thesis
      using a up down by simp
  qed
  show ?thesis
    using a y x v dir unfolding tilt_def [symmetric] by blast
qed

theorem handleBallPaddleCollision_angle_witness:
  "0 < width (paddle downBallState) + 20
   \<and> \<bar>pos_x (ball_pos (ball (fst (updateState downBallState {}))))
        - pos_x (paddle_pos (paddle downBallState))\<bar> < (width (paddle downBallState) + 20) / 2
   \<and> 0 < sin (angle (ball downBallState))
   \<and> detectCollisions (fst (updateState downBallState {})) downBallState = [BallPaddle]
   \<and> angle (ball (handleBallPaddleCollision (fst (updateState downBallState {})) downBallState))
       = - pi / 4
   \<and> sin (angle (ball (handleBallPaddleCollision (fst (updateState downBallState {}))
                         downBallState))) < 0
   \<and> 0 < width (paddle upBallInPaddleState) + 20
   \<and> \<bar>pos_x (ball_pos (ball (fst (updateState upBallInPaddleState {}))))
        - pos_x (paddle_pos (paddle upBallInPaddleState))\<bar>
      < (width (paddle upBallInPaddleState) + 20) / 2
   \<and> sin (angle (ball upBallInPaddleState)) < 0
   \<and> 0 < sin (angle (ball (handleBallPaddleCollision (fst (updateState upBallInPaddleState {}))
                             upBallInPaddleState)))"
proof -
  let ?s = "fst (updateState downBallState {})"
  let ?u = "fst (updateState upBallInPaddleState {})"
  have x: "pos_x (ball_pos (ball ?s)) = 275"
    by (simp add: downBallState_def update_defs Let_def globals_defs)
  have w: "0 < width (paddle downBallState) + 20"
    by (simp add: downBallState_def)
  have d: "\<bar>pos_x (ball_pos (ball ?s)) - pos_x (paddle_pos (paddle downBallState))\<bar>
             < (width (paddle downBallState) + 20) / 2"
    by (simp add: x) (simp add: downBallState_def)
  have c: "detectCollisions ?s downBallState = [BallPaddle]"
    by (simp add: downBallState_def update_defs detect_defs Let_def globals_defs)
  have o: "angle (ball downBallState) = pi / 2"
    "pos_x (paddle_pos (paddle downBallState)) = 250" "width (paddle downBallState) = 80"
    by (simp_all add: downBallState_def)
  have p: "0 < sin (angle (ball downBallState))"
    by (simp add: o)
  have a: "angle (ball (handleBallPaddleCollision ?s downBallState)) = - pi / 4"
    using handleBallPaddleCollision_angle [of ?s downBallState] by (simp add: o x)
  have n: "sin (angle (ball (handleBallPaddleCollision ?s downBallState))) < 0"
    using handleBallPaddleCollision_angle [of ?s downBallState] w d p by blast
  have xu: "pos_x (ball_pos (ball ?u)) = 250"
    by (simp add: upBallInPaddleState_def update_defs Let_def globals_defs)
  have wu: "0 < width (paddle upBallInPaddleState) + 20"
    by (simp add: upBallInPaddleState_def)
  have du: "\<bar>pos_x (ball_pos (ball ?u)) - pos_x (paddle_pos (paddle upBallInPaddleState))\<bar>
             < (width (paddle upBallInPaddleState) + 20) / 2"
    by (simp add: xu) (simp add: upBallInPaddleState_def)
  have pu: "sin (angle (ball upBallInPaddleState)) < 0"
    by (simp add: upBallInPaddleState_def)
  have nu: "0 < sin (angle (ball (handleBallPaddleCollision ?u upBallInPaddleState)))"
    using handleBallPaddleCollision_angle [of ?u upBallInPaddleState] wu du pu by blast
  show ?thesis
    using w d p c a n wu du pu nu by blast
qed

section \<open>The launch frame (C7)\<close>

text \<open>
  A serve that starts from a resting ball is launched as the comments of
  \<^verbatim>\<open>updateBall\<close> say: with \<^const>\<open>BALL_SPEED\<close>, straight up, and already one step
  away from the old position.
\<close>

lemma updateState_launch_from_rest:
  assumes "''p'' \<notin> inputs" and "\<not> isPaused oldState"
    and "isServing oldState" and "'' '' \<in> inputs"
    and "speed (ball oldState) = 0"
  shows "\<not> isServing (fst (updateState oldState inputs))
       \<and> speed (ball (fst (updateState oldState inputs))) = BALL_SPEED
       \<and> angle (ball (fst (updateState oldState inputs))) = - pi / 2
       \<and> pos_x (ball_pos (ball (fst (updateState oldState inputs))))
           = pos_x (ball_pos (ball oldState))
       \<and> pos_y (ball_pos (ball (fst (updateState oldState inputs))))
           = pos_y (ball_pos (ball oldState)) - BALL_SPEED"
  using assms
  by (simp add: updateState_def updatePause_def updateServingPaddle_def updateBall_def Let_def)

text \<open>
  C7 at the initial state: with the space bar held on the first frame, the serve of
  \<^const>\<open>createState\<close> is released with the speed 3 and the angle \<open>\<pi>/3\<close> that the initial
  ball carries (down and to the right, from \<open>y = 27.5\<close>), not with \<^const>\<open>BALL_SPEED\<close>
  and \<open>-\<pi>/2\<close>: \<^verbatim>\<open>updateBall\<close> takes a serving ball to have speed 0, and the initial
  state serves with speed 3.
\<close>

theorem createState_launch:
  "isServing (createState canvas rnd)
   \<and> \<not> isServing (fst (updateState (createState canvas rnd) {'' ''}))
   \<and> speed (ball (fst (updateState (createState canvas rnd) {'' ''}))) = 3
   \<and> angle (ball (fst (updateState (createState canvas rnd) {'' ''}))) = pi / 3
   \<and> speed (ball (fst (updateState (createState canvas rnd) {'' ''}))) \<noteq> BALL_SPEED
   \<and> angle (ball (fst (updateState (createState canvas rnd) {'' ''}))) \<noteq> - pi / 2"
proof -
  have "pi / 3 \<noteq> - pi / 2"
    using pi_gt_zero by linarith
  then show ?thesis
    by (simp add: createState_def updateState_def updatePause_def updateServingPaddle_def
        updateBall_def Let_def BALL_SPEED_def)
qed

text \<open>
  The same happens after a lost ball: the bottom-wall handler sets \<open>isServing\<close> and
  leaves the ball moving, so with the space bar held the next transition releases the
  serve at once and the ball goes on falling below the arena.
\<close>

lemma reentry_launch:
  "frame fallingBallState {'' ''} =
     Inr (fallingBallState
            \<lparr>isServing := True,
             ball := (ball fallingBallState)\<lparr>ball_pos := \<lparr>pos_x = 100, pos_y = 410\<rparr>\<rparr>\<rparr>, {'' ''})
   \<and> fst (updateState
            (fallingBallState
               \<lparr>isServing := True,
                ball := (ball fallingBallState)\<lparr>ball_pos := \<lparr>pos_x = 100, pos_y = 410\<rparr>\<rparr>\<rparr>)
            {'' ''})
     = fallingBallState
         \<lparr>ball := (ball fallingBallState)\<lparr>ball_pos := \<lparr>pos_x = 100, pos_y = 415\<rparr>\<rparr>\<rparr>"
  by (simp add: fallingBallState_def frame_def update_defs detect_defs handle_defs Let_def
      globals_defs)

section \<open>A paused frame (C8)\<close>

text \<open>What a frame computes from a paused state when the pause key is not held.\<close>

lemma frame_paused:
  assumes "isPaused oldState" and "''p'' \<notin> inputs"
  shows "updateState oldState inputs = (oldState, inputs)
       \<and> frame oldState inputs =
           (case handleCollisions (detectCollisions oldState oldState) oldState oldState of
              Inl e \<Rightarrow> Inl e | Inr state' \<Rightarrow> Inr (state', inputs))"
  using assms by (simp add: frame_def updateState_paused_id)

text \<open>The grid of the initial state, and the two cosines of its mirrored ball.\<close>

lemma upt_0_8: "[0..<8] = [0, 1, 2, 3, 4, 5, 6, 7]"
  by code_simp

lemma upt_0_4: "[0..<4] = [0, 1, 2, 3]"
  by code_simp

lemma cos_2pi_3: "cos (2 * pi / 3) = - (1 / 2)"
proof -
  have "cos (pi - pi / 3) = - cos (pi / 3)" by (rule cos_pi_minus)
  then show ?thesis by (simp add: cos_60)
qed

lemma createBricks_noPowerups:
  "createBricks noPowerups =
     [brickAt 40 40, brickAt 100 40, brickAt 160 40, brickAt 220 40,
      brickAt 280 40, brickAt 340 40, brickAt 400 40, brickAt 460 40,
      brickAt 40 75, brickAt 100 75, brickAt 160 75, brickAt 220 75,
      brickAt 280 75, brickAt 340 75, brickAt 400 75, brickAt 460 75,
      brickAt 40 110, brickAt 100 110, brickAt 160 110, brickAt 220 110,
      brickAt 280 110, brickAt 340 110, brickAt 400 110, brickAt 460 110,
      brickAt 40 145, brickAt 100 145, brickAt 160 145, brickAt 220 145,
      brickAt 280 145, brickAt 340 145, brickAt 400 145, brickAt 460 145]"
  by (simp add: createBricks_def upt_0_8 upt_0_4 BRICK_COLS_def BRICK_ROWS_def brickAt_def
      randomPowerup_def noPowerups_def globals_defs)

text \<open>
  The initial ball, at \<open>(250, 27.5)\<close>, overlaps the fourth and the fifth brick of the
  first row. A first frame with the pause key held pauses the game and still resolves
  the two hits.
\<close>

lemma start_detect:
  "detectCollisions ((createState canvas0 noPowerups)\<lparr>isPaused := True\<rparr>)
      (createState canvas0 noPowerups) = [BallBrick 3 Left, BallBrick 4 Left]"
  by (simp add: createState_def canvas0_def createBricks_noPowerups brickAt_def detect_defs
      Let_def globals_defs)

lemma start_frame:
  "frame (createState canvas0 noPowerups) {''p''} = Inr (pausedStartState, {})"
  by (simp add: frame_def updateState_def updatePause_def start_detect)
    (simp add: pausedStartState_def createState_def canvas0_def createBricks_noPowerups
      brickAt_def handle_defs Let_def globals_defs cos_2pi_3)

lemma paused_detect:
  "detectCollisions pausedStartState pausedStartState = [BallBrick 3 Left]"
  by (simp add: pausedStartState_def createState_def canvas0_def createBricks_noPowerups
      brickAt_def detect_defs splice1_def Let_def globals_defs)

text \<open>
  C8 (a frame from a paused state, without the pause key, returns the state unchanged in
  every field) at \<^const>\<open>pausedStartState\<close>, the state that the game is in after a first
  frame with the pause key held. The transition leaves the paused state as it is, but
  detection and resolution are not skipped: the next frame, with no key held, removes
  the brick at \<open>(280, 40)\<close>, mirrors the angle of the ball and moves it.
\<close>

theorem paused_frame_removes_brick:
  "frame (createState canvas0 noPowerups) {''p''} = Inr (pausedStartState, {})
   \<and> isPaused pausedStartState \<and> ''p'' \<notin> ({} :: Inputs)
   \<and> updateState pausedStartState {} = (pausedStartState, {})
   \<and> length (bricks pausedStartState) = 30
   \<and> bricks pausedStartState ! 3 = brickAt 280 40
   \<and> frame pausedStartState {} =
       Inr (pausedStartState
              \<lparr>ball := \<lparr>ball_pos = \<lparr>pos_x = 250, pos_y = 27.5\<rparr>, speed = 3, angle = pi / 3\<rparr>,
               bricks := splice1 3 (bricks pausedStartState)\<rparr>, {})
   \<and> length (splice1 3 (bricks pausedStartState)) = 29"
proof -
  have p: "isPaused pausedStartState"
    by (simp add: pausedStartState_def)
  have u: "updateState pausedStartState {} = (pausedStartState, {})"
    using p by (simp add: updateState_paused_id)
  have f2: "frame pausedStartState {} =
       Inr (pausedStartState
              \<lparr>ball := \<lparr>ball_pos = \<lparr>pos_x = 250, pos_y = 27.5\<rparr>, speed = 3, angle = pi / 3\<rparr>,
               bricks := splice1 3 (bricks pausedStartState)\<rparr>, {})"
    by (simp add: frame_def u paused_detect)
      (simp add: pausedStartState_def createState_def canvas0_def createBricks_noPowerups
        brickAt_def handle_defs Let_def globals_defs cos_60)
  have l: "length (bricks pausedStartState) = 30"
    "bricks pausedStartState ! 3 = brickAt 280 40"
    "length (splice1 3 (bricks pausedStartState)) = 29"
    by (simp_all add: pausedStartState_def createBricks_noPowerups splice1_def)
  show ?thesis
    using start_frame f2 l p u by simp
qed

section \<open>The pause toggle (C9)\<close>

text \<open>
  C9: for every state, paused or not, a transition whose inputs hold the pause key
  flips \<open>isPaused\<close> and removes the key from the input set, and it does so before any
  other step: from a paused state the four update steps then run on the unpaused state
  with the key already removed, and from a running state they are all skipped.
\<close>

theorem updateState_pause_toggle:
  assumes "''p'' \<in> inputs"
  shows "updatePause oldState inputs
           = (oldState\<lparr>isPaused := \<not> isPaused oldState\<rparr>, inputs - {''p''})
       \<and> isPaused (fst (updateState oldState inputs)) = (\<not> isPaused oldState)
       \<and> snd (updateState oldState inputs) = inputs - {''p''}
       \<and> fst (updateState oldState inputs) =
           (if isPaused oldState
            then updateBall
                   (updatePaddle
                      (updatePowerups
                         (updateServingPaddle (oldState\<lparr>isPaused := False\<rparr>) oldState
                            (inputs - {''p''})))
                      oldState (inputs - {''p''}))
                   oldState
            else oldState\<lparr>isPaused := True\<rparr>)"
  using assms by (simp add: updateState_def updatePause_def)

theorem updateState_pause_toggle_witness:
  "''p'' \<in> {''p'', ''ArrowLeft''}
   \<and> \<not> isPaused (fst (updateState pausedState {''p'', ''ArrowLeft''}))
   \<and> snd (updateState pausedState {''p'', ''ArrowLeft''}) = {''ArrowLeft''}
   \<and> pos_x (paddle_pos (paddle (fst (updateState pausedState {''p'', ''ArrowLeft''})))) = 248"
proof -
  have h: "''p'' \<in> {''p'', ''ArrowLeft''}" by simp
  have e: "{''p'', ''ArrowLeft''} - {''p''} = {''ArrowLeft''}" by auto
  show ?thesis
    using updateState_pause_toggle [OF h, of pausedState]
    by (simp add: e pausedState_def updatePaddle_def updateServingPaddle_def Let_def
        globals_defs)
qed

section \<open>The powerup tick skips the powerup after a removed one (C10)\<close>

lemma ptype_Expander [simp]: "ptype p = Expander"
  by (cases "ptype p") simp
















end
